theory Spec2Isabelle
  imports Complex_Main "HOL-Library.Multiset"
begin

section \<open>Numbers\<close>

text \<open>
  The program computes on JavaScript numbers. A number is modelled as a finite real, one of
  the two infinities, or NaN. Arithmetic on finite values is exact (no rounding, no overflow);
  the special values follow IEEE 754 as JavaScript applies it: a comparison with NaN is false,
  \<open>x / 0\<close> is an infinity of the sign of \<open>x\<close> (NaN for \<open>0 / 0\<close>),
  \<open>\<infinity> - \<infinity>\<close> and \<open>0 * \<infinity>\<close> are NaN. There is one zero: the
  negative zero is not told apart from \<open>0\<close>.
\<close>

datatype jsnum = Fin real | PInf | NInf | NaN

fun is_finite :: "jsnum \<Rightarrow> bool" where
  "is_finite (Fin x) = True"
| "is_finite PInf = False"
| "is_finite NInf = False"
| "is_finite NaN = False"

instantiation jsnum :: "{zero, one, plus, minus, uminus, times, inverse, abs, ord}"
begin

definition zero_jsnum :: jsnum where
  "zero_jsnum = Fin 0"

definition one_jsnum :: jsnum where
  "one_jsnum = Fin 1"

fun uminus_jsnum :: "jsnum \<Rightarrow> jsnum" where
  "uminus_jsnum (Fin x) = Fin (- x)"
| "uminus_jsnum PInf = NInf"
| "uminus_jsnum NInf = PInf"
| "uminus_jsnum NaN = NaN"

fun plus_jsnum :: "jsnum \<Rightarrow> jsnum \<Rightarrow> jsnum" where
  "plus_jsnum NaN b = NaN"
| "plus_jsnum a NaN = NaN"
| "plus_jsnum (Fin x) (Fin y) = Fin (x + y)"
| "plus_jsnum PInf NInf = NaN"
| "plus_jsnum NInf PInf = NaN"
| "plus_jsnum PInf b = PInf"
| "plus_jsnum NInf b = NInf"
| "plus_jsnum (Fin x) b = b"

definition minus_jsnum :: "jsnum \<Rightarrow> jsnum \<Rightarrow> jsnum" where
  "minus_jsnum a b = a + (- b)"

fun times_jsnum :: "jsnum \<Rightarrow> jsnum \<Rightarrow> jsnum" where
  "times_jsnum NaN b = NaN"
| "times_jsnum a NaN = NaN"
| "times_jsnum (Fin x) (Fin y) = Fin (x * y)"
| "times_jsnum (Fin x) PInf = (if x = 0 then NaN else if 0 < x then PInf else NInf)"
| "times_jsnum (Fin x) NInf = (if x = 0 then NaN else if 0 < x then NInf else PInf)"
| "times_jsnum PInf (Fin y) = (if y = 0 then NaN else if 0 < y then PInf else NInf)"
| "times_jsnum NInf (Fin y) = (if y = 0 then NaN else if 0 < y then NInf else PInf)"
| "times_jsnum PInf PInf = PInf"
| "times_jsnum PInf NInf = NInf"
| "times_jsnum NInf PInf = NInf"
| "times_jsnum NInf NInf = PInf"

fun divide_jsnum :: "jsnum \<Rightarrow> jsnum \<Rightarrow> jsnum" where
  "divide_jsnum NaN b = NaN"
| "divide_jsnum a NaN = NaN"
| "divide_jsnum (Fin x) (Fin y) =
     (if y \<noteq> 0 then Fin (x / y)
      else if x = 0 then NaN else if 0 < x then PInf else NInf)"
| "divide_jsnum (Fin x) PInf = Fin 0"
| "divide_jsnum (Fin x) NInf = Fin 0"
| "divide_jsnum PInf (Fin y) = (if 0 \<le> y then PInf else NInf)"
| "divide_jsnum NInf (Fin y) = (if 0 \<le> y then NInf else PInf)"
| "divide_jsnum PInf b = NaN"
| "divide_jsnum NInf b = NaN"

fun inverse_jsnum :: "jsnum \<Rightarrow> jsnum" where
  "inverse_jsnum (Fin x) = (if x \<noteq> 0 then Fin (1 / x) else PInf)"
| "inverse_jsnum PInf = Fin 0"
| "inverse_jsnum NInf = Fin 0"
| "inverse_jsnum NaN = NaN"

fun abs_jsnum :: "jsnum \<Rightarrow> jsnum" where
  "abs_jsnum (Fin x) = Fin \<bar>x\<bar>"
| "abs_jsnum PInf = PInf"
| "abs_jsnum NInf = PInf"
| "abs_jsnum NaN = NaN"

fun less_jsnum :: "jsnum \<Rightarrow> jsnum \<Rightarrow> bool" where
  "less_jsnum NaN b = False"
| "less_jsnum a NaN = False"
| "less_jsnum (Fin x) (Fin y) = (x < y)"
| "less_jsnum a NInf = False"
| "less_jsnum PInf b = False"
| "less_jsnum NInf b = True"
| "less_jsnum (Fin x) PInf = True"

fun less_eq_jsnum :: "jsnum \<Rightarrow> jsnum \<Rightarrow> bool" where
  "less_eq_jsnum NaN b = False"
| "less_eq_jsnum a NaN = False"
| "less_eq_jsnum (Fin x) (Fin y) = (x \<le> y)"
| "less_eq_jsnum NInf b = True"
| "less_eq_jsnum a PInf = True"
| "less_eq_jsnum PInf b = False"
| "less_eq_jsnum (Fin x) NInf = False"

instance ..

end

text \<open>Strict equality \<open>===\<close> on numbers: NaN is equal to nothing, itself included.\<close>

definition js_eq :: "jsnum \<Rightarrow> jsnum \<Rightarrow> bool" where
  "js_eq a b = (a \<noteq> NaN \<and> a = b)"

fun js_sqrt :: "jsnum \<Rightarrow> jsnum" where
  "js_sqrt (Fin x) = (if 0 \<le> x then Fin (sqrt x) else NaN)"
| "js_sqrt PInf = PInf"
| "js_sqrt NInf = NaN"
| "js_sqrt NaN = NaN"

fun js_sin :: "jsnum \<Rightarrow> jsnum" where
  "js_sin (Fin x) = Fin (sin x)"
| "js_sin a = NaN"

fun js_acos :: "jsnum \<Rightarrow> jsnum" where
  "js_acos (Fin x) = (if - 1 \<le> x \<and> x \<le> 1 then Fin (arccos x) else NaN)"
| "js_acos a = NaN"

text \<open>\<open>Math.max\<close> of two numbers: NaN as soon as one of them is.\<close>

fun js_max :: "jsnum \<Rightarrow> jsnum \<Rightarrow> jsnum" where
  "js_max NaN b = NaN"
| "js_max a NaN = NaN"
| "js_max a b = (if a < b then b else a)"

text \<open>
  \<open>Math.pow\<close> with a finite exponent (the program's exponents are the constants
  \<open>2\<close>, \<open>3\<close> and \<open>2/3\<close>): a negative base has a power only for a whole
  exponent.
\<close>

definition is_int :: "real \<Rightarrow> bool" where
  "is_int e = (e = of_int \<lfloor>e\<rfloor>)"

definition is_odd :: "real \<Rightarrow> bool" where
  "is_odd e = (is_int e \<and> odd \<lfloor>e\<rfloor>)"

fun js_pow :: "jsnum \<Rightarrow> real \<Rightarrow> jsnum" where
  "js_pow a e =
     (if e = 0 then Fin 1
      else case a of
        NaN \<Rightarrow> NaN
      | PInf \<Rightarrow> (if 0 < e then PInf else Fin 0)
      | NInf \<Rightarrow> (if 0 < e then (if is_odd e then NInf else PInf) else Fin 0)
      | Fin x \<Rightarrow>
          (if 0 < x then Fin (x powr e)
           else if x = 0 then (if 0 < e then Fin 0 else PInf)
           else if is_int e then Fin (x powi \<lfloor>e\<rfloor>)
           else NaN))"

section \<open>Data model\<close>

datatype ChannelType = Rectangular | Trapezoidal | Triangular | Circular

datatype UnitSystem = SI | Imperial

record InputParams =
  flowRate :: jsnum
  slope :: jsnum
  manningN :: jsnum
  width :: jsnum
  sideSlope :: jsnum
  diameter :: jsnum

record Geometry =
  A :: jsnum
  P :: jsnum
  T :: jsnum
  centroidDepth :: jsnum

definition MAX_ITER :: nat where
  "MAX_ITER = 100"

definition TOLERANCE :: jsnum where
  "TOLERANCE = Fin (1 / 1000000)"

text \<open>\<open>UNIT_CONSTANTS[unit]\<close>: the gravitational acceleration and Manning's coefficient.\<close>

fun G :: "UnitSystem \<Rightarrow> jsnum" where
  "G SI = Fin 9.81"
| "G Imperial = Fin 32.2"

fun K :: "UnitSystem \<Rightarrow> jsnum" where
  "K SI = Fin 1"
| "K Imperial = Fin 1.486"

section \<open>Geometry\<close>

definition zeroGeometry :: Geometry where
  "zeroGeometry = \<lparr>A = Fin 0, P = Fin 0, T = Fin 0, centroidDepth = Fin 0\<rparr>"

definition getGeometry :: "ChannelType \<Rightarrow> jsnum \<Rightarrow> InputParams \<Rightarrow> Geometry" where
  "getGeometry type y p =
     (if y \<le> Fin 0 then \<lparr>A = Fin 0, P = Fin 0, T = Fin 0, centroidDepth = Fin 0\<rparr>
      else case type of
        Rectangular \<Rightarrow>
          \<lparr>A = width p * y,
           P = width p + Fin 2 * y,
           T = width p,
           centroidDepth = y / Fin 2\<rparr>
      | Trapezoidal \<Rightarrow>
          (let A' = (width p + sideSlope p * y) * y;
               P' = width p + Fin 2 * y * js_sqrt (Fin 1 + sideSlope p * sideSlope p);
               T' = width p + Fin 2 * sideSlope p * y;
               y_bar_bottom = (y / Fin 3) * ((Fin 2 * T' + width p) / (T' + width p))
           in \<lparr>A = A', P = P', T = T', centroidDepth = y - y_bar_bottom\<rparr>)
      | Triangular \<Rightarrow>
          \<lparr>A = sideSlope p * y * y,
           P = Fin 2 * y * js_sqrt (Fin 1 + sideSlope p * sideSlope p),
           T = Fin 2 * sideSlope p * y,
           centroidDepth = y / Fin 3\<rparr>
      | Circular \<Rightarrow>
          (let D = diameter p;
               depth = (if D < y then D else y);
               r = D / Fin 2;
               h = depth;
               theta = Fin 2 * js_acos (Fin 1 - (Fin 2 * h) / D);
               alpha = theta / Fin 2;
               segmentCentroidFromCenter =
                 (Fin 2 * D * js_pow (js_sin alpha) 3) / (Fin 3 * (theta - js_sin theta))
           in \<lparr>A = (js_pow D 2 / Fin 8) * (theta - js_sin theta),
               P = (D / Fin 2) * theta,
               T = D * js_sin (theta / Fin 2),
               centroidDepth = (h - r) + segmentCentroidFromCenter\<rparr>))"

section \<open>Solvers\<close>

text \<open>
  The bisection loops run a fixed number of iterations; the first argument of each loop
  function is the number of iterations left. The bracket ends are \<open>mn\<close> and
  \<open>mx\<close> (\<open>min\<close> and \<open>max\<close> in the source).
\<close>

fun normalDepthLoop ::
  "nat \<Rightarrow> ChannelType \<Rightarrow> InputParams \<Rightarrow> jsnum \<Rightarrow> jsnum \<Rightarrow> jsnum \<Rightarrow> jsnum" where
  "normalDepthLoop 0 type p target mn mx = (mn + mx) / Fin 2"
| "normalDepthLoop (Suc k) type p target mn mx =
     (let mid = (mn + mx) / Fin 2;
          geom = getGeometry type mid p
      in if js_eq (P geom) (Fin 0) then normalDepthLoop k type p target mid mx
         else
           let R = A geom / P geom;
               val = A geom * js_pow R (2 / 3)
           in if \<bar>val - target\<bar> < TOLERANCE then mid
              else if val < target then normalDepthLoop k type p target mid mx
              else normalDepthLoop k type p target mn mid)"

definition solveNormalDepth :: "ChannelType \<Rightarrow> InputParams \<Rightarrow> UnitSystem \<Rightarrow> jsnum" where
  "solveNormalDepth type p unit =
     (let target = (flowRate p * manningN p) / (K unit * js_sqrt (slope p));
          mn = Fin 0;
          mx = (if type = Circular then diameter p else Fin 50)
      in normalDepthLoop MAX_ITER type p target mn mx)"

fun criticalDepthLoop ::
  "nat \<Rightarrow> ChannelType \<Rightarrow> InputParams \<Rightarrow> jsnum \<Rightarrow> jsnum \<Rightarrow> jsnum \<Rightarrow> jsnum \<Rightarrow> jsnum" where
  "criticalDepthLoop 0 type p g Q2 mn mx = (mn + mx) / Fin 2"
| "criticalDepthLoop (Suc k) type p g Q2 mn mx =
     (let mid = (mn + mx) / Fin 2;
          geom = getGeometry type mid p;
          val = g * js_pow (A geom) 3 - Q2 * T geom
      in if \<bar>val\<bar> < TOLERANCE then mid
         else if val < Fin 0 then criticalDepthLoop k type p g Q2 mid mx
         else criticalDepthLoop k type p g Q2 mn mid)"

definition solveCriticalDepth :: "ChannelType \<Rightarrow> InputParams \<Rightarrow> UnitSystem \<Rightarrow> jsnum" where
  "solveCriticalDepth type p unit =
     (let Q2 = js_pow (flowRate p) 2;
          mn = Fin 0;
          mx = (if type = Circular then diameter p else Fin 50)
      in criticalDepthLoop MAX_ITER type p (G unit) Q2 mn mx)"

datatype FlowRegime = Subcritical | Supercritical | Critical

fun energyLoop ::
  "nat \<Rightarrow> ChannelType \<Rightarrow> InputParams \<Rightarrow> jsnum \<Rightarrow> jsnum \<Rightarrow> FlowRegime \<Rightarrow> jsnum \<Rightarrow> jsnum \<Rightarrow> jsnum"
where
  "energyLoop 0 type p E g regime mn mx = (mn + mx) / Fin 2"
| "energyLoop (Suc k) type p E g regime mn mx =
     (let mid = (mn + mx) / Fin 2;
          geom = getGeometry type mid p;
          V = (if Fin 0 < A geom then flowRate p / A geom else Fin 0);
          E_calc = mid + (V * V) / (Fin 2 * g)
      in if \<bar>E_calc - E\<bar> < Fin (1 / 10000) then mid
         else if regime = Supercritical then
           (if E < E_calc then energyLoop k type p E g regime mid mx
            else energyLoop k type p E g regime mn mid)
         else
           (if E_calc < E then energyLoop k type p E g regime mid mx
            else energyLoop k type p E g regime mn mid))"

definition solveDepthFromEnergy ::
  "ChannelType \<Rightarrow> InputParams \<Rightarrow> jsnum \<Rightarrow> UnitSystem \<Rightarrow> FlowRegime \<Rightarrow> jsnum" where
  "solveDepthFromEnergy type p E unit regime =
     (let yc = solveCriticalDepth type p unit;
          geomC = getGeometry type yc p;
          Vc = flowRate p / A geomC;
          Ec = yc + (Vc * Vc) / (Fin 2 * G unit)
      in if E < Ec then yc
         else
           let mn = (if regime = Supercritical then Fin 0.01 else yc);
               mx = (if regime = Supercritical then yc
                     else js_max (yc * Fin 5) (E * Fin 1.5))
           in energyLoop 50 type p E (G unit) regime mn mx)"

section \<open>Single-reach flow\<close>

record CalculationResult =
  normalDepth :: jsnum
  criticalDepth :: jsnum
  velocity :: jsnum
  froudeNumber :: jsnum
  flowRegime :: FlowRegime
  criticalVelocity :: jsnum
  error :: "string option"

text \<open>
  The body of the \<open>try\<close> block of \<open>calculateFlow\<close>: \<open>Inl\<close> carries the
  message of a thrown \<open>Error\<close>, \<open>Inr\<close> the result returned.
\<close>

definition calculateFlowTry ::
  "ChannelType \<Rightarrow> InputParams \<Rightarrow> UnitSystem \<Rightarrow> string + CalculationResult" where
  "calculateFlowTry type p unit =
     (if slope p \<le> Fin 0 \<or> manningN p \<le> Fin 0 \<or> flowRate p \<le> Fin 0
        then Inl ''Slope, n, and Q must be positive.''
      else if type = Circular \<and> diameter p \<le> Fin 0
        then Inl ''Diameter must be positive.''
      else if type = Rectangular \<and> width p \<le> Fin 0
        then Inl ''Width must be positive.''
      else
        let yn = solveNormalDepth type p unit;
            yc = solveCriticalDepth type p unit;
            geomN = getGeometry type yn p;
            V = flowRate p / A geomN;
            D_hyd = A geomN / T geomN;
            Fr = V / js_sqrt (G unit * D_hyd);
            regime = (if Fr < Fin 0.99 then Subcritical
                      else if Fin 1.01 < Fr then Supercritical
                      else Critical);
            geomC = getGeometry type yc p;
            Vc = flowRate p / A geomC
        in Inr \<lparr>normalDepth = yn, criticalDepth = yc, velocity = V, froudeNumber = Fr,
                 flowRegime = regime, criticalVelocity = Vc, error = None\<rparr>)"

text \<open>\<open>calculateFlow\<close>: the \<open>catch\<close> clause turns a thrown message into a result.\<close>

definition calculateFlow :: "ChannelType \<Rightarrow> InputParams \<Rightarrow> UnitSystem \<Rightarrow> CalculationResult" where
  "calculateFlow type p unit =
     (case calculateFlowTry type p unit of
        Inl message \<Rightarrow>
          \<lparr>normalDepth = Fin 0, criticalDepth = Fin 0, velocity = Fin 0, froudeNumber = Fin 0,
           flowRegime = Critical, criticalVelocity = Fin 0, error = Some message\<rparr>
      | Inr r \<Rightarrow> r)"

section \<open>Multi-reach profile\<close>

text \<open>
  Modelled from the spec: the type declarations of \<open>CanalSectionInput\<close>,
  \<open>BoundaryCondition\<close> and \<open>ProfilePoint\<close>, which are not among the sources (the
  specification's ReachSpec, BoundaryCondition and ProfilePoint). The records carry the
  fields that \<open>calculateMultiReachProfile\<close> reads and writes, under the names it uses,
  except that the fields \<open>length\<close> and \<open>slope\<close> of a section are \<open>sec_length\<close> and
  \<open>sec_slope\<close>, and the fields \<open>type\<close> and \<open>value\<close> of a boundary condition are
  \<open>bc_type\<close> and \<open>bc_value\<close>. A boundary condition whose type is neither
  \<open>NormalDepth\<close> nor \<open>CriticalDepth\<close> is a fixed depth.
\<close>

datatype InputMode = SlopeMode | Elevation

record CanalSectionInput =
  sec_length :: jsnum
  inputMode :: InputMode
  sec_slope :: jsnum
  usElevation :: jsnum
  dsElevation :: jsnum

datatype BCLocation = Upstream | Downstream

datatype BCType = FixedDepth | NormalDepth | CriticalDepth

record BoundaryCondition =
  location :: BCLocation
  bc_type :: BCType
  bc_value :: jsnum

record ProfilePoint =
  distance :: jsnum
  bedElevation :: jsnum
  waterElevation :: jsnum
  depth :: jsnum
  normalDepthElevation :: jsnum
  criticalDepthElevation :: jsnum
  sectionIndex :: nat

subsection \<open>Sections and sweep order\<close>

definition computeSection :: "CanalSectionInput \<Rightarrow> CanalSectionInput" where
  "computeSection s =
     s\<lparr>sec_slope :=
         (if inputMode s = Elevation then (usElevation s - dsElevation s) / sec_length s
          else sec_slope s)\<rparr>"

definition processingOrder ::
  "bool \<Rightarrow> CanalSectionInput list \<Rightarrow> (CanalSectionInput \<times> nat) list" where
  "processingOrder isUpstreamCalc computedSections =
     (if isUpstreamCalc
      then map (\<lambda>(idx, s). (s, length computedSections - 1 - idx))
             (enumerate 0 (rev computedSections))
      else map (\<lambda>(idx, s). (s, idx)) (enumerate 0 computedSections))"

subsection \<open>Entry depth of a reach\<close>


text \<open>The energy required of the new reach at a junction: \<open>E_req\<close> of the source.\<close>

definition junctionEnergy ::
  "ChannelType \<Rightarrow> InputParams \<Rightarrow> UnitSystem \<Rightarrow> bool \<Rightarrow> CanalSectionInput \<Rightarrow>
   CanalSectionInput \<Rightarrow> jsnum \<Rightarrow> jsnum" where
  "junctionEnergy type baseParams unit isUpstreamCalc prevSec currSec currentDepth =
     (let z_prev_end =
            (if isUpstreamCalc
             then (if inputMode prevSec = Elevation then usElevation prevSec else Fin 0)
             else (if inputMode prevSec = Elevation then dsElevation prevSec else Fin 0));
          z_curr_start =
            (if isUpstreamCalc
             then (if inputMode currSec = Elevation then dsElevation currSec else Fin 0)
             else (if inputMode currSec = Elevation then usElevation currSec else Fin 0));
          geomPrev = getGeometry type currentDepth baseParams;
          Vprev = flowRate baseParams / A geomPrev;
          E_prev = currentDepth + (Vprev * Vprev) / (Fin 2 * G unit);
          TotalHead = E_prev + z_prev_end
      in TotalHead - z_curr_start)"

definition junctionDepth ::
  "ChannelType \<Rightarrow> InputParams \<Rightarrow> UnitSystem \<Rightarrow> bool \<Rightarrow> CanalSectionInput \<Rightarrow>
   CanalSectionInput \<Rightarrow> jsnum \<Rightarrow> jsnum" where
  "junctionDepth type baseParams unit isUpstreamCalc prevSec currSec currentDepth =
     (let sectionParams = baseParams\<lparr>slope := sec_slope currSec\<rparr>;
          E_req = junctionEnergy type baseParams unit isUpstreamCalc prevSec currSec currentDepth;
          regime = (if isUpstreamCalc then Subcritical else Supercritical);
          yc_curr = solveCriticalDepth type sectionParams unit;
          geomC = getGeometry type yc_curr sectionParams;
          Vc = flowRate baseParams / A geomC;
          Ec = yc_curr + (Vc * Vc) / (Fin 2 * G unit)
      in if E_req < Ec then yc_curr
         else solveDepthFromEnergy type sectionParams E_req unit regime)"

text \<open>
  The depth at which a reach is entered. \<open>prev\<close> is the section processed before
  (\<open>processingOrder[i-1].s\<close>), \<open>None\<close> for the first one (\<open>i === 0\<close>).
\<close>

definition entryDepth ::
  "ChannelType \<Rightarrow> InputParams \<Rightarrow> BoundaryCondition \<Rightarrow> UnitSystem \<Rightarrow>
   CanalSectionInput option \<Rightarrow> CanalSectionInput \<Rightarrow> jsnum \<Rightarrow> jsnum" where
  "entryDepth type baseParams bc unit prev s currentDepth =
     (let sectionParams = baseParams\<lparr>slope := sec_slope s\<rparr>;
          yn = solveNormalDepth type sectionParams unit;
          yc = solveCriticalDepth type sectionParams unit
      in case prev of
           None \<Rightarrow>
             (if bc_type bc = NormalDepth then yn
              else if bc_type bc = CriticalDepth then yc
              else bc_value bc)
         | Some prevSec \<Rightarrow>
             junctionDepth type baseParams unit (location bc = Downstream) prevSec s
               currentDepth)"

subsection \<open>Standard-step integration of one reach\<close>

definition localPoint :: "jsnum \<Rightarrow> jsnum \<Rightarrow> nat \<Rightarrow> ProfilePoint" where
  "localPoint x_local y originalIdx =
     \<lparr>distance = x_local, bedElevation = Fin 0, waterElevation = Fin 0, depth = y,
      normalDepthElevation = Fin 0, criticalDepthElevation = Fin 0,
      sectionIndex = originalIdx\<rparr>"

text \<open>
  The loop over \<open>step\<close>; the first argument is the number of steps left. The result is
  the depth and the points of the section when the loop ends, by exhaustion or by
  \<open>break\<close>. (The source's test on \<open>|denominator| < 0.05\<close> has an empty body.)
\<close>

fun stepLoop ::
  "nat \<Rightarrow> ChannelType \<Rightarrow> InputParams \<Rightarrow> InputParams \<Rightarrow> UnitSystem \<Rightarrow> jsnum \<Rightarrow> nat \<Rightarrow>
   jsnum \<Rightarrow> jsnum \<Rightarrow> ProfilePoint list \<Rightarrow> jsnum \<times> ProfilePoint list" where
  "stepLoop 0 type baseParams sectionParams unit dx originalIdx y x_local sectionPoints =
     (y, sectionPoints)"
| "stepLoop (Suc k) type baseParams sectionParams unit dx originalIdx y x_local sectionPoints =
     (if y \<le> Fin 0 then (y, sectionPoints)
      else
        let geom = getGeometry type y sectionParams
        in if js_eq (A geom) (Fin 0) \<or> js_eq (T geom) (Fin 0) then (y, sectionPoints)
           else
             let V = flowRate baseParams / A geom;
                 R = (if Fin 0 < P geom then A geom / P geom else Fin 0);
                 Dh = A geom / T geom;
                 Sf = js_pow ((manningN sectionParams * V) / (K unit * js_pow R (2 / 3))) 2;
                 Fr2 = js_pow V 2 / (G unit * Dh);
                 numerator = slope sectionParams - Sf;
                 denominator = Fin 1 - Fr2;
                 dydx = numerator / denominator;
                 dy = dydx * dx;
                 y1 = y + dy;
                 x1 = x_local + dx;
                 y2 = (if y1 \<le> Fin 0 then Fin 0.01 else y1);
                 y3 = (if Fin 100 < y2 then Fin 100 else y2)
             in stepLoop k type baseParams sectionParams unit dx originalIdx y3 x1
                  (sectionPoints @ [localPoint x1 y3 originalIdx]))"

text \<open>
  \<open>stepPerSection\<close> is a finite number: the loop \<open>for (step = 0; step < stepPerSection;
  step++)\<close> then runs at most \<open>\<lceil>stepPerSection\<rceil>\<close> times (never for a count
  that is not positive). An infinite count, with which the source would not return, is
  outside the model.
\<close>

definition integrateReach ::
  "ChannelType \<Rightarrow> InputParams \<Rightarrow> UnitSystem \<Rightarrow> bool \<Rightarrow> real \<Rightarrow> CanalSectionInput \<Rightarrow> nat \<Rightarrow>
   jsnum \<Rightarrow> jsnum \<times> ProfilePoint list" where
  "integrateReach type baseParams unit isUpstreamCalc stepPerSection s originalIdx currentDepth =
     (let sectionParams = baseParams\<lparr>slope := sec_slope s\<rparr>;
          dx = (sec_length s / Fin stepPerSection) * (if isUpstreamCalc then Fin (- 1) else Fin 1);
          y = currentDepth;
          x_local = (if isUpstreamCalc then sec_length s else Fin 0)
      in stepLoop (nat \<lceil>stepPerSection\<rceil>) type baseParams sectionParams unit dx originalIdx
           y x_local [localPoint x_local y originalIdx])"

subsection \<open>The sweep over the reaches\<close>

text \<open>
  The loop over \<open>processingOrder\<close>: the state is the previous section (none at
  \<open>i = 0\<close>), \<open>currentDepth\<close> and \<open>allPoints\<close>.
\<close>

fun reachLoop ::
  "ChannelType \<Rightarrow> InputParams \<Rightarrow> BoundaryCondition \<Rightarrow> UnitSystem \<Rightarrow> real \<Rightarrow>
   CanalSectionInput option \<Rightarrow> (CanalSectionInput \<times> nat) list \<Rightarrow> jsnum \<Rightarrow> ProfilePoint list \<Rightarrow>
   ProfilePoint list" where
  "reachLoop type baseParams bc unit stepPerSection prev [] currentDepth allPoints = allPoints"
| "reachLoop type baseParams bc unit stepPerSection prev ((s, originalIdx) # rest) currentDepth
     allPoints =
     (let isUpstreamCalc = (location bc = Downstream);
          currentDepth1 = entryDepth type baseParams bc unit prev s currentDepth;
          (y, sectionPoints) =
            integrateReach type baseParams unit isUpstreamCalc stepPerSection s originalIdx
              currentDepth1
      in reachLoop type baseParams bc unit stepPerSection (Some s) rest y
           (allPoints @ (if isUpstreamCalc then rev sectionPoints else sectionPoints)))"

subsection \<open>Chainage and bed elevation of the reach boundaries\<close>

fun sectionStartDistLoop :: "jsnum \<Rightarrow> CanalSectionInput list \<Rightarrow> jsnum list" where
  "sectionStartDistLoop globalDist [] = []"
| "sectionStartDistLoop globalDist (s # ss) =
     globalDist # sectionStartDistLoop (globalDist + sec_length s) ss"

text \<open>
  \<open>z_nodes\<close> holds \<open>null\<close> (\<open>None\<close>) for a node not known yet; in arithmetic
  \<open>null\<close> counts as \<open>0\<close>.
\<close>

fun num :: "jsnum option \<Rightarrow> jsnum" where
  "num None = Fin 0"
| "num (Some v) = v"

definition fillKnowns :: "CanalSectionInput list \<Rightarrow> jsnum option list" where
  "fillKnowns computedSections =
     foldl (\<lambda>z (i, s).
              if inputMode s = Elevation
              then (z[i := Some (usElevation s)])[i + 1 := Some (dsElevation s)]
              else z)
       (replicate (length computedSections + 1) None)
       (enumerate 0 computedSections)"

definition forwardPass :: "CanalSectionInput list \<Rightarrow> jsnum option list \<Rightarrow> jsnum option list" where
  "forwardPass computedSections z_nodes =
     foldl (\<lambda>z i.
              if z ! (i + 1) = None
              then z[i + 1 := Some (num (z ! i) -
                     sec_slope (computedSections ! i) * sec_length (computedSections ! i))]
              else z)
       (if z_nodes ! 0 = None then z_nodes[0 := Some (Fin 100)] else z_nodes)
       [0..<length computedSections]"

definition backwardPass :: "CanalSectionInput list \<Rightarrow> jsnum option list \<Rightarrow> jsnum option list" where
  "backwardPass computedSections z_nodes =
     foldl (\<lambda>z i.
              if z ! i = None \<and> z ! (i + 1) \<noteq> None
              then z[i := Some (num (z ! (i + 1)) +
                     sec_slope (computedSections ! i) * sec_length (computedSections ! i))]
              else z)
       z_nodes
       (rev [0..<length computedSections])"

definition z_nodes_of :: "CanalSectionInput list \<Rightarrow> jsnum option list" where
  "z_nodes_of computedSections =
     backwardPass computedSections (forwardPass computedSections (fillKnowns computedSections))"

subsection \<open>Assembly\<close>

definition pointsBySection :: "ProfilePoint list \<Rightarrow> (nat \<rightharpoonup> ProfilePoint list)" where
  "pointsBySection allPoints =
     foldl (\<lambda>m p.
              let m1 = (if m (sectionIndex p) = None then m(sectionIndex p \<mapsto> []) else m)
              in case m1 (sectionIndex p) of
                   None \<Rightarrow> m1
                 | Some ps \<Rightarrow> m1(sectionIndex p \<mapsto> ps @ [p]))
       Map.empty allPoints"

definition mapPoints ::
  "ChannelType \<Rightarrow> InputParams \<Rightarrow> UnitSystem \<Rightarrow> CanalSectionInput list \<Rightarrow> jsnum list \<Rightarrow>
   jsnum option list \<Rightarrow> (nat \<rightharpoonup> ProfilePoint list) \<Rightarrow> nat \<Rightarrow> ProfilePoint list" where
  "mapPoints type baseParams unit computedSections sectionStartDist z_nodes bySection i =
     (let s = computedSections ! i;
          pts = (case bySection i of None \<Rightarrow> [] | Some ps \<Rightarrow> ps);
          startX = sectionStartDist ! i;
          startZ = num (z_nodes ! i);
          yn = solveNormalDepth type (baseParams\<lparr>slope := sec_slope s\<rparr>) unit;
          yc = solveCriticalDepth type (baseParams\<lparr>slope := sec_slope s\<rparr>) unit
      in map (\<lambda>p.
                let globalX = startX + distance p;
                    bedZ = startZ - sec_slope s * distance p
                in \<lparr>distance = globalX, bedElevation = bedZ, waterElevation = bedZ + depth p,
                    depth = depth p, normalDepthElevation = bedZ + yn,
                    criticalDepthElevation = bedZ + yc, sectionIndex = i\<rparr>)
           pts)"

text \<open>
  \<open>Array.prototype.sort\<close> with a comparator: a stable sort that puts \<open>a\<close> after
  \<open>b\<close> when \<open>cmp a b > 0\<close> (a comparator value of NaN counts as \<open>0\<close>). It is
  modelled by stable insertion.
\<close>

fun insort_cmp :: "('a \<Rightarrow> 'a \<Rightarrow> jsnum) \<Rightarrow> 'a \<Rightarrow> 'a list \<Rightarrow> 'a list" where
  "insort_cmp cmp x [] = [x]"
| "insort_cmp cmp x (y # ys) =
     (if Fin 0 < cmp x y then y # insort_cmp cmp x ys else x # y # ys)"

definition js_sort :: "('a \<Rightarrow> 'a \<Rightarrow> jsnum) \<Rightarrow> 'a list \<Rightarrow> 'a list" where
  "js_sort cmp xs = foldr (insort_cmp cmp) xs []"

definition finalPoints ::
  "ChannelType \<Rightarrow> InputParams \<Rightarrow> CanalSectionInput list \<Rightarrow> BoundaryCondition \<Rightarrow> UnitSystem \<Rightarrow>
   real \<Rightarrow> ProfilePoint list" where
  "finalPoints type baseParams sections bc unit stepPerSection =
     (let isUpstreamCalc = (location bc = Downstream);
          computedSections = map computeSection sections;
          allPoints =
            reachLoop type baseParams bc unit stepPerSection None
              (processingOrder isUpstreamCalc computedSections) (bc_value bc) [];
          sectionStartDist = sectionStartDistLoop (Fin 0) computedSections;
          z_nodes = z_nodes_of computedSections;
          bySection = pointsBySection allPoints
      in concat (map (mapPoints type baseParams unit computedSections sectionStartDist z_nodes
                        bySection)
                   [0..<length computedSections]))"

definition calculateMultiReachProfile ::
  "ChannelType \<Rightarrow> InputParams \<Rightarrow> CanalSectionInput list \<Rightarrow> BoundaryCondition \<Rightarrow> UnitSystem \<Rightarrow>
   real \<Rightarrow> ProfilePoint list" where
  "calculateMultiReachProfile type baseParams sections bc unit stepPerSection =
     js_sort (\<lambda>a b. distance a - distance b)
       (finalPoints type baseParams sections bc unit stepPerSection)"

section \<open>Manning's equation\<close>



section \<open>Inputs of the examples\<close>






section \<open>Facts about the numbers\<close>

declare js_pow.simps [simp del]

lemma js_pow_2 [simp]: "js_pow (Fin x) 2 = Fin (x\<^sup>2)"
proof -
  have "is_int 2" by (simp add: is_int_def)
  moreover have "\<lfloor>2::real\<rfloor> = 2" by simp
  ultimately show ?thesis
    by (cases "0 < x") (auto simp: js_pow.simps power_int_def simp flip: powr_numeral)
qed

lemma js_pow_3 [simp]: "js_pow (Fin x) 3 = Fin (x ^ 3)"
proof -
  have "is_int 3" by (simp add: is_int_def)
  moreover have "\<lfloor>3::real\<rfloor> = 3" by simp
  ultimately show ?thesis
    by (cases "0 < x") (auto simp: js_pow.simps power_int_def simp flip: powr_numeral)
qed

lemma js_pow_two_thirds [simp]:
  "0 \<le> x \<Longrightarrow> js_pow (Fin x) (2 / 3) = Fin (x powr (2 / 3))"
  by (auto simp: js_pow.simps)

lemma Fin_minus [simp]: "Fin a - Fin b = Fin (a - b)"
  by (simp add: minus_jsnum_def)

lemma less_imp_diff_pos: "(b::jsnum) < a \<Longrightarrow> Fin 0 < a - b"
  by (cases a; cases b) (auto simp: minus_jsnum_def)

lemma diff_pos_imp_not_less: "Fin 0 < a - b \<Longrightarrow> \<not> (a::jsnum) < b"
  by (cases a; cases b) (auto simp: minus_jsnum_def)

lemma not_less_iff_le: "a \<noteq> NaN \<Longrightarrow> b \<noteq> NaN \<Longrightarrow> (\<not> (b::jsnum) < a) = (a \<le> b)"
  by (cases a; cases b) auto

lemma le_trans_jsnum: "(a::jsnum) \<le> b \<Longrightarrow> b \<le> c \<Longrightarrow> a \<le> c"
  by (cases a; cases b; cases c) auto

lemma K_pos: "\<exists>k. K unit = Fin k \<and> 0 < k"
proof (cases unit)
  case SI
  show ?thesis unfolding SI by (rule exI[of _ 1]) simp
next
  case Imperial
  show ?thesis unfolding Imperial by (rule exI[of _ "1.486"]) simp
qed

lemma G_pos: "\<exists>g. G unit = Fin g \<and> 0 < g"
proof (cases unit)
  case SI
  show ?thesis unfolding SI by (rule exI[of _ "9.81"]) simp
next
  case Imperial
  show ?thesis unfolding Imperial by (rule exI[of _ "32.2"]) simp
qed

section \<open>Geometry at a depth that is not positive\<close>

text \<open>
  Claim C7. For every channel shape, every parameter record and every depth \<open>y \<le> 0\<close>,
  \<open>getGeometry\<close> returns the zero geometry: area, wetted perimeter, top width and centroid
  depth are all \<open>0\<close>.
\<close>

theorem getGeometry_nonpositive:
  "y \<le> Fin 0 \<Longrightarrow> getGeometry type y p = zeroGeometry"
  by (simp add: getGeometry_def zeroGeometry_def)

theorem getGeometry_nonpositive_witness:
  "Fin (- 1) \<le> Fin 0 \<and>
   getGeometry Circular (Fin (- 1))
     \<lparr>flowRate = Fin 2, slope = Fin 0.002, manningN = Fin 0.013, width = Fin 0,
      sideSlope = Fin 0, diameter = Fin 2\<rparr> = zeroGeometry"
  using getGeometry_nonpositive [of "Fin (- 1)" Circular
      "\<lparr>flowRate = Fin 2, slope = Fin 0.002, manningN = Fin 0.013, width = Fin 0,
        sideSlope = Fin 0, diameter = Fin 2\<rparr>"]
  by simp

section \<open>Validation in \<open>calculateFlow\<close>\<close>

text \<open>
  Claim C6. For every input with a discharge, roughness or slope that is not positive, or
  a diameter that is not positive when the shape is Circular, or a width that is not
  positive when the shape is Rectangular, \<open>calculateFlow\<close> returns a result (it does not
  throw) whose \<open>error\<close> field holds a message, not empty, and whose numeric fields
  \<open>normalDepth\<close>, \<open>criticalDepth\<close>, \<open>velocity\<close>, \<open>froudeNumber\<close> and
  \<open>criticalVelocity\<close> are all \<open>0\<close>.
\<close>

theorem calculateFlow_invalid:
  assumes "flowRate p \<le> Fin 0 \<or> manningN p \<le> Fin 0 \<or> slope p \<le> Fin 0
     \<or> (type = Circular \<and> diameter p \<le> Fin 0) \<or> (type = Rectangular \<and> width p \<le> Fin 0)"
  shows "\<exists>message. error (calculateFlow type p unit) = Some message \<and> message \<noteq> []
     \<and> normalDepth (calculateFlow type p unit) = Fin 0
     \<and> criticalDepth (calculateFlow type p unit) = Fin 0
     \<and> velocity (calculateFlow type p unit) = Fin 0
     \<and> froudeNumber (calculateFlow type p unit) = Fin 0
     \<and> criticalVelocity (calculateFlow type p unit) = Fin 0"
  using assms by (auto simp: calculateFlow_def calculateFlowTry_def)

theorem calculateFlow_invalid_witness:
  "width \<lparr>flowRate = Fin 10, slope = Fin 0.001, manningN = Fin 0.013, width = Fin (- 5),
      sideSlope = Fin 0, diameter = Fin 0\<rparr> \<le> Fin 0 \<and>
   (\<exists>message.
      error (calculateFlow Rectangular
        \<lparr>flowRate = Fin 10, slope = Fin 0.001, manningN = Fin 0.013, width = Fin (- 5),
         sideSlope = Fin 0, diameter = Fin 0\<rparr> SI) = Some message \<and> message \<noteq> [] \<and>
      velocity (calculateFlow Rectangular
        \<lparr>flowRate = Fin 10, slope = Fin 0.001, manningN = Fin 0.013, width = Fin (- 5),
         sideSlope = Fin 0, diameter = Fin 0\<rparr> SI) = Fin 0)"
  using calculateFlow_invalid [of
      "\<lparr>flowRate = Fin 10, slope = Fin 0.001, manningN = Fin 0.013, width = Fin (- 5),
        sideSlope = Fin 0, diameter = Fin 0\<rparr>" Rectangular SI]
  by auto

text \<open>
  Claim C10. Whenever \<open>calculateFlow\<close> returns a result with the \<open>error\<close> field set,
  the \<open>flowRegime\<close> of that result is \<open>Critical\<close>. The error path has no regime of
  its own: a result without error has the same regime \<open>Critical\<close> exactly when its
  Froude number is neither below \<open>0.99\<close> nor above \<open>1.01\<close>, so the regime alone
  does not tell a failed computation from critical flow.
\<close>

theorem calculateFlow_error_regime:
  "(error (calculateFlow type p unit) \<noteq> None \<longrightarrow>
      flowRegime (calculateFlow type p unit) = Critical)
   \<and> (error (calculateFlow type p unit) = None \<longrightarrow>
      (flowRegime (calculateFlow type p unit) = Critical) =
      (\<not> froudeNumber (calculateFlow type p unit) < Fin 0.99
       \<and> \<not> Fin 1.01 < froudeNumber (calculateFlow type p unit)))"
  by (auto simp: calculateFlow_def calculateFlowTry_def Let_def split: if_splits)

theorem calculateFlow_error_regime_witness:
  "error (calculateFlow Circular
      \<lparr>flowRate = Fin 2, slope = Fin 0.002, manningN = Fin 0.013, width = Fin 0,
       sideSlope = Fin 0, diameter = Fin 0\<rparr> Imperial) \<noteq> None \<and>
   flowRegime (calculateFlow Circular
      \<lparr>flowRate = Fin 2, slope = Fin 0.002, manningN = Fin 0.013, width = Fin 0,
       sideSlope = Fin 0, diameter = Fin 0\<rparr> Imperial) = Critical"
proof -
  have e: "error (calculateFlow Circular
      \<lparr>flowRate = Fin 2, slope = Fin 0.002, manningN = Fin 0.013, width = Fin 0,
       sideSlope = Fin 0, diameter = Fin 0\<rparr> Imperial) \<noteq> None"
    by (simp add: calculateFlow_def calculateFlowTry_def)
  show ?thesis
    using e calculateFlow_error_regime [of Circular
      "\<lparr>flowRate = Fin 2, slope = Fin 0.002, manningN = Fin 0.013, width = Fin 0,
        sideSlope = Fin 0, diameter = Fin 0\<rparr>" Imperial]
    by blast
qed

section \<open>A triangular channel with side slope \<open>0\<close>\<close>

lemma getGeometry_Triangular_flat:
  assumes "0 < y" "sideSlope p = Fin 0"
  shows "getGeometry Triangular (Fin y) p =
     \<lparr>A = Fin 0, P = Fin (2 * y), T = Fin 0, centroidDepth = Fin (y / 3)\<rparr>"
  using assms by (simp add: getGeometry_def)

lemma normalDepthLoop_Triangular_flat:
  assumes "sideSlope p = Fin 0" "0 < t"
  shows "0 \<le> a \<Longrightarrow> a < b \<Longrightarrow>
     \<exists>y. normalDepthLoop k Triangular p (Fin t) (Fin a) (Fin b) = Fin y \<and> a < y \<and> y < b"
proof (induction k arbitrary: a)
  case 0
  then show ?case by (auto intro!: exI[of _ "(a + b) / 2"])
next
  case (Suc k)
  let ?m = "(a + b) / 2"
  have m: "0 < ?m" "a < ?m" "?m < b" using Suc.prems by auto
  have g: "getGeometry Triangular (Fin ?m) p =
     \<lparr>A = Fin 0, P = Fin (2 * ?m), T = Fin 0, centroidDepth = Fin (?m / 3)\<rparr>"
    using getGeometry_Triangular_flat[OF m(1) assms(1)] .
  show ?case
  proof (cases "t < 1 / 1000000")
    case True
    then show ?thesis using m g assms(2)
      by (auto simp: Let_def js_eq_def TOLERANCE_def minus_jsnum_def intro!: exI[of _ ?m])
  next
    case False
    obtain y where y: "normalDepthLoop k Triangular p (Fin t) (Fin ?m) (Fin b) = Fin y"
      "?m < y" "y < b"
      using Suc.IH[of ?m] m by auto
    have "a < y" using y m by linarith
    then show ?thesis using False m g assms(2) y
      by (simp add: Let_def js_eq_def TOLERANCE_def minus_jsnum_def)
  qed
qed

lemma criticalDepthLoop_Triangular_flat:
  assumes "sideSlope p = Fin 0"
  shows "criticalDepthLoop (Suc k) Triangular p (Fin g) (Fin q2) (Fin 0) (Fin 50) = Fin 25"
proof -
  have g: "getGeometry Triangular (Fin 25) p =
     \<lparr>A = Fin 0, P = Fin (2 * 25), T = Fin 0, centroidDepth = Fin (25 / 3)\<rparr>"
    using getGeometry_Triangular_flat[of 25 p] assms(1) by simp
  show ?thesis using g
    by (simp add: Let_def TOLERANCE_def minus_jsnum_def)
qed

lemma solveCriticalDepth_Triangular_flat:
  assumes "sideSlope p = Fin 0" "flowRate p = Fin q"
  shows "solveCriticalDepth Triangular p unit = Fin 25"
proof -
  obtain g where g: "G unit = Fin g" using G_pos by blast
  have m: "MAX_ITER = Suc 99" by (simp add: MAX_ITER_def)
  have "solveCriticalDepth Triangular p unit =
      criticalDepthLoop (Suc 99) Triangular p (Fin g) (Fin (q\<^sup>2)) (Fin 0) (Fin 50)"
    unfolding solveCriticalDepth_def Let_def m g assms(2) js_pow_2 by simp
  also have "\<dots> = Fin 25"
    by (rule criticalDepthLoop_Triangular_flat[OF assms(1)])
  finally show ?thesis .
qed

lemma calculateFlow_Triangular_flat:
  assumes "sideSlope p = Fin 0" "flowRate p = Fin q" "0 < q" "manningN p = Fin n" "0 < n"
    "slope p = Fin s" "0 < s"
  shows "calculateFlowTry Triangular p unit =
     Inr \<lparr>normalDepth = solveNormalDepth Triangular p unit, criticalDepth = Fin 25,
          velocity = PInf, froudeNumber = NaN, flowRegime = Critical,
          criticalVelocity = PInf, error = None\<rparr>"
proof -
  obtain k where k: "K unit = Fin k" "0 < k" using K_pos by blast
  obtain g where gg: "G unit = Fin g" "0 < g" using G_pos by blast
  have t: "(flowRate p * manningN p) / (K unit * js_sqrt (slope p)) = Fin (q * n / (k * sqrt s))"
    "0 < q * n / (k * sqrt s)"
    using assms k by simp_all
  obtain y where y: "solveNormalDepth Triangular p unit = Fin y" "0 < y"
    using normalDepthLoop_Triangular_flat[OF assms(1) t(2), of 0 50 MAX_ITER] t(1)
    by (auto simp: solveNormalDepth_def Let_def)
  have gn: "getGeometry Triangular (Fin y) p =
     \<lparr>A = Fin 0, P = Fin (2 * y), T = Fin 0, centroidDepth = Fin (y / 3)\<rparr>"
    using getGeometry_Triangular_flat[OF y(2) assms(1)] .
  have gc: "getGeometry Triangular (Fin 25) p =
     \<lparr>A = Fin 0, P = Fin (2 * 25), T = Fin 0, centroidDepth = Fin (25 / 3)\<rparr>"
    using getGeometry_Triangular_flat[of 25 p] assms(1) by simp
  have yc: "solveCriticalDepth Triangular p unit = Fin 25"
    using solveCriticalDepth_Triangular_flat[OF assms(1,2)] .
  show ?thesis
    using assms(2-) y gn gc yc gg by (simp add: calculateFlowTry_def Let_def)
qed

text \<open>
  Claim C9. \<open>calculateFlow\<close> validates the discharge, the slope and the roughness for
  every shape, the diameter for Circular only and the width for Rectangular only: the
  \<open>error\<close> field is set exactly when one of these tests fails. So a Triangular channel
  with side slope \<open>0\<close> and positive discharge, slope and roughness passes: the result
  has no error, and its velocity is \<open>Infinity\<close> and its Froude number NaN, neither
  zeroed nor reported.
\<close>

theorem calculateFlow_validation_gap:
  "((error (calculateFlow type p unit) \<noteq> None) =
      (slope p \<le> Fin 0 \<or> manningN p \<le> Fin 0 \<or> flowRate p \<le> Fin 0
       \<or> (type = Circular \<and> diameter p \<le> Fin 0) \<or> (type = Rectangular \<and> width p \<le> Fin 0)))
   \<and> (sideSlope p = Fin 0 \<and> flowRate p = Fin q \<and> 0 < q \<and> manningN p = Fin n \<and> 0 < n
        \<and> slope p = Fin s \<and> 0 < s \<longrightarrow>
      error (calculateFlow Triangular p unit) = None
      \<and> velocity (calculateFlow Triangular p unit) = PInf
      \<and> froudeNumber (calculateFlow Triangular p unit) = NaN
      \<and> \<not> is_finite (velocity (calculateFlow Triangular p unit))
      \<and> \<not> is_finite (froudeNumber (calculateFlow Triangular p unit)))"
proof (intro conjI impI)
  show "(error (calculateFlow type p unit) \<noteq> None) =
      (slope p \<le> Fin 0 \<or> manningN p \<le> Fin 0 \<or> flowRate p \<le> Fin 0
       \<or> (type = Circular \<and> diameter p \<le> Fin 0) \<or> (type = Rectangular \<and> width p \<le> Fin 0))"
    by (auto simp: calculateFlow_def calculateFlowTry_def Let_def)
next
  assume h: "sideSlope p = Fin 0 \<and> flowRate p = Fin q \<and> 0 < q \<and> manningN p = Fin n \<and> 0 < n
        \<and> slope p = Fin s \<and> 0 < s"
  then have tr: "calculateFlowTry Triangular p unit =
     Inr \<lparr>normalDepth = solveNormalDepth Triangular p unit, criticalDepth = Fin 25,
          velocity = PInf, froudeNumber = NaN, flowRegime = Critical,
          criticalVelocity = PInf, error = None\<rparr>"
    using calculateFlow_Triangular_flat[of p q n s unit] by simp
  show "error (calculateFlow Triangular p unit) = None"
    "velocity (calculateFlow Triangular p unit) = PInf"
    "froudeNumber (calculateFlow Triangular p unit) = NaN"
    "\<not> is_finite (velocity (calculateFlow Triangular p unit))"
    "\<not> is_finite (froudeNumber (calculateFlow Triangular p unit))"
    by (simp_all add: calculateFlow_def tr)
qed

theorem calculateFlow_validation_gap_witness:
  "error (calculateFlow Triangular
      \<lparr>flowRate = Fin 5, slope = Fin 0.005, manningN = Fin 0.013, width = Fin 0,
       sideSlope = Fin 0, diameter = Fin 0\<rparr> SI) = None \<and>
   velocity (calculateFlow Triangular
      \<lparr>flowRate = Fin 5, slope = Fin 0.005, manningN = Fin 0.013, width = Fin 0,
       sideSlope = Fin 0, diameter = Fin 0\<rparr> SI) = PInf \<and>
   froudeNumber (calculateFlow Triangular
      \<lparr>flowRate = Fin 5, slope = Fin 0.005, manningN = Fin 0.013, width = Fin 0,
       sideSlope = Fin 0, diameter = Fin 0\<rparr> SI) = NaN"
  using calculateFlow_validation_gap [of Triangular
      "\<lparr>flowRate = Fin 5, slope = Fin 0.005, manningN = Fin 0.013, width = Fin 0,
        sideSlope = Fin 0, diameter = Fin 0\<rparr>" SI 5 "0.013" "0.005"]
  by simp

section \<open>The sort\<close>

lemma insort_cmp_not_Nil [simp]: "insort_cmp cmp x ys \<noteq> []"
  by (cases ys) auto

lemma hd_insort_cmp: "hd (insort_cmp cmp x ys) = x \<or> (ys \<noteq> [] \<and> hd (insort_cmp cmp x ys) = hd ys)"
  by (cases ys) auto

lemma mset_insort_cmp [simp]: "mset (insort_cmp cmp x ys) = add_mset x (mset ys)"
  by (induction ys) auto

lemma mset_js_sort [simp]: "mset (js_sort cmp xs) = mset xs"
  by (induction xs) (auto simp: js_sort_def)

lemma successively_insort_distance:
  assumes "successively (\<lambda>a b. \<not> f b < f a) ys"
  shows "successively (\<lambda>a b. \<not> f b < f a) (insort_cmp (\<lambda>a b. f a - f b) x ys)"
  using assms
proof (induction ys)
  case Nil
  then show ?case by simp
next
  case (Cons y ys)
  show ?case
  proof (cases "Fin 0 < f x - f y")
    case True
    have s: "successively (\<lambda>a b. \<not> f b < f a) (insort_cmp (\<lambda>a b. f a - f b) x ys)"
      using Cons by (auto simp: successively_Cons)
    have "\<not> f (hd (insort_cmp (\<lambda>a b. f a - f b) x ys)) < f y"
      using hd_insort_cmp[of "\<lambda>a b. f a - f b" x ys] Cons.prems diff_pos_imp_not_less[OF True]
      by (auto simp: successively_Cons)
    then show ?thesis using True s by (simp add: successively_Cons)
  next
    case False
    then have "\<not> f y < f x" using less_imp_diff_pos by blast
    then show ?thesis using False Cons.prems by simp
  qed
qed

lemma successively_js_sort_distance:
  "successively (\<lambda>a b. \<not> f b < f a) (js_sort (\<lambda>a b. f a - f b) xs)"
  by (induction xs) (auto simp: js_sort_def successively_insort_distance)

lemma sorted_js_sort_distance:
  assumes "\<forall>x\<in>set xs. f x \<noteq> NaN"
  shows "sorted_wrt (\<lambda>a b. f a \<le> f b) (js_sort (\<lambda>a b. f a - f b) xs)"
proof -
  let ?ys = "js_sort (\<lambda>a b. f a - f b) xs"
  have set: "set ?ys = set xs" using mset_js_sort[of "\<lambda>a b. f a - f b" xs] by (metis set_mset_mset)
  have "successively (\<lambda>a b. f a \<le> f b) ?ys = successively (\<lambda>a b. \<not> f b < f a) ?ys"
    by (rule successively_cong) (use set assms not_less_iff_le in auto)
  then have "successively (\<lambda>a b. f a \<le> f b) ?ys"
    using successively_js_sort_distance by simp
  moreover have "successively (\<lambda>a b. f a \<le> f b) ?ys = sorted_wrt (\<lambda>a b. f a \<le> f b) ?ys"
    by (rule successively_iff_sorted_wrt_strong) (use le_trans_jsnum in blast)
  ultimately show ?thesis by simp
qed

section \<open>Distances of the recorded points\<close>

lemma is_finite_iff: "is_finite a = (\<exists>x. a = Fin x)"
  by (cases a) auto

lemma is_finite_plus: "is_finite a \<Longrightarrow> is_finite b \<Longrightarrow> is_finite (a + b)"
  by (auto simp: is_finite_iff)

lemma stepLoop_distance_finite:
  "is_finite dx \<Longrightarrow> is_finite x \<Longrightarrow> \<forall>p\<in>set pts. is_finite (distance p) \<Longrightarrow>
   \<forall>p\<in>set (snd (stepLoop k type bp sp unit dx idx y x pts)). is_finite (distance p)"
proof (induction k arbitrary: y x pts)
  case 0
  then show ?case by simp
next
  case (Suc k)
  have fx: "is_finite (x + dx)" using Suc.prems by (simp add: is_finite_plus)
  have step: "\<And>y'. \<forall>p\<in>set (snd (stepLoop k type bp sp unit dx idx y' (x + dx)
        (pts @ [localPoint (x + dx) y' idx]))). is_finite (distance p)"
    by (rule Suc.IH[OF Suc.prems(1) fx]) (use Suc.prems fx in \<open>auto simp: localPoint_def\<close>)
  show ?case
    using Suc.prems(3) step by (simp add: Let_def)
qed

lemma integrateReach_distance_finite:
  assumes "is_finite (sec_length s)"
  shows "\<forall>p\<in>set (snd (integrateReach type bp unit up c s idx d)). is_finite (distance p)"
proof (cases "c \<le> 0")
  case True
  then have "nat \<lceil>c\<rceil> = 0" by simp
  then show ?thesis using assms
    by (simp add: integrateReach_def Let_def localPoint_def)
next
  case False
  obtain L where L: "sec_length s = Fin L" using assms by (auto simp: is_finite_iff)
  have dx: "is_finite ((sec_length s / Fin c) * (if up then Fin (- 1) else Fin 1))"
    using False L by simp
  have x: "is_finite (if up then sec_length s else Fin 0)" using L by simp
  show ?thesis
    unfolding integrateReach_def Let_def
    by (rule stepLoop_distance_finite[OF dx x]) (use x in \<open>simp add: localPoint_def\<close>)
qed

lemma reachLoop_distance_finite:
  "\<forall>e\<in>set order. is_finite (sec_length (fst e)) \<Longrightarrow> \<forall>p\<in>set acc. is_finite (distance p) \<Longrightarrow>
   \<forall>p\<in>set (reachLoop type bp bc unit c prev order d acc). is_finite (distance p)"
proof (induction order arbitrary: prev d acc)
  case Nil
  then show ?case by simp
next
  case (Cons e order)
  obtain s idx where e: "e = (s, idx)" by (cases e)
  have fs: "is_finite (sec_length s)" using Cons.prems(1) e by simp
  let ?r = "integrateReach type bp unit (location bc = Downstream) c s idx
      (entryDepth type bp bc unit prev s d)"
  have pts: "\<forall>p\<in>set (snd ?r). is_finite (distance p)"
    using integrateReach_distance_finite[OF fs] .
  have "\<forall>p\<in>set (reachLoop type bp bc unit c (Some s) order (fst ?r)
      (acc @ (if location bc = Downstream then rev (snd ?r) else snd ?r))). is_finite (distance p)"
    by (rule Cons.IH) (use Cons.prems pts in auto)
  then show ?case by (simp add: e Let_def case_prod_beta)
qed

lemma map_fst_enumerate_swap:
  "map (fst \<circ> (\<lambda>(idx, s). (s, f idx))) (enumerate n xs) = xs"
  by (induction xs arbitrary: n) simp_all

lemma map_fst_processingOrder:
  "map fst (processingOrder up cs) = (if up then rev cs else cs)"
  by (simp add: processingOrder_def map_fst_enumerate_swap)

lemma processingOrder_sections: "fst ` set (processingOrder up cs) = set cs"
proof -
  have "set (map fst (processingOrder up cs)) = set cs"
    by (simp add: map_fst_processingOrder)
  then show ?thesis by simp
qed

lemma pointsBySection_fold_subset:
  "(\<forall>i ps. m i = Some ps \<longrightarrow> set ps \<subseteq> S) \<Longrightarrow> set xs \<subseteq> S \<Longrightarrow>
   foldl (\<lambda>m p.
            let m1 = (if m (sectionIndex p) = None then m(sectionIndex p \<mapsto> []) else m)
            in case m1 (sectionIndex p) of
                 None \<Rightarrow> m1
               | Some ps \<Rightarrow> m1(sectionIndex p \<mapsto> ps @ [p])) m xs i = Some ps \<Longrightarrow>
   set ps \<subseteq> S"
proof (induction xs arbitrary: m)
  case Nil
  then show ?case by auto
next
  case (Cons x xs)
  show ?case
    apply (rule Cons.IH[OF _ _ ])
    prefer 3
    using Cons.prems(3) apply simp
    using Cons.prems(1,2) apply (auto simp: Let_def split: option.splits if_splits)
    done
qed

lemma pointsBySection_subset:
  "pointsBySection allPoints i = Some ps \<Longrightarrow> set ps \<subseteq> set allPoints"
  unfolding pointsBySection_def
  by (rule pointsBySection_fold_subset[where m = Map.empty and xs = allPoints]) auto

lemma sectionStartDistLoop_length [simp]:
  "length (sectionStartDistLoop g cs) = length cs"
  by (induction cs arbitrary: g) auto

lemma sectionStartDistLoop_finite:
  "is_finite g \<Longrightarrow> \<forall>s\<in>set cs. is_finite (sec_length s) \<Longrightarrow>
   \<forall>d\<in>set (sectionStartDistLoop g cs). is_finite d"
proof (induction cs arbitrary: g)
  case Nil
  then show ?case by simp
next
  case (Cons s cs)
  have "is_finite (g + sec_length s)" using Cons.prems by (simp add: is_finite_plus)
  then have "\<forall>d\<in>set (sectionStartDistLoop (g + sec_length s) cs). is_finite d"
    by (rule Cons.IH) (use Cons.prems in simp)
  then show ?case using Cons.prems(1) by simp
qed

lemma mapPoints_distance_finite:
  assumes "is_finite (sd ! i)" "\<forall>p\<in>set allPoints. is_finite (distance p)"
  shows "\<forall>p\<in>set (mapPoints type bp unit cs sd z (pointsBySection allPoints) i).
     is_finite (distance p)"
proof (cases "pointsBySection allPoints i")
  case None
  then show ?thesis by (simp add: mapPoints_def)
next
  case (Some ps)
  have "\<forall>p\<in>set ps. is_finite (distance p)"
    using pointsBySection_subset[OF Some] assms(2) by auto
  then show ?thesis using Some assms(1)
    by (auto simp: mapPoints_def Let_def is_finite_plus)
qed

lemma sec_length_computeSection [simp]: "sec_length (computeSection s) = sec_length s"
  by (simp add: computeSection_def)

lemma finalPoints_distance_finite:
  assumes "\<forall>s\<in>set sections. is_finite (sec_length s)"
  shows "\<forall>p\<in>set (finalPoints type bp sections bc unit c). is_finite (distance p)"
proof -
  let ?cs = "map computeSection sections"
  let ?up = "location bc = Downstream"
  let ?all = "reachLoop type bp bc unit c None (processingOrder ?up ?cs) (bc_value bc) []"
  have cs: "\<forall>s\<in>set ?cs. is_finite (sec_length s)" using assms by simp
  have "\<forall>e\<in>set (processingOrder ?up ?cs). is_finite (sec_length (fst e))"
    using cs processingOrder_sections[of ?up ?cs] by (metis imageI)
  then have all: "\<forall>p\<in>set ?all. is_finite (distance p)"
    by (rule reachLoop_distance_finite) simp
  have d: "\<forall>d\<in>set (sectionStartDistLoop (Fin 0) ?cs). is_finite d"
    by (rule sectionStartDistLoop_finite) (use cs in auto)
  have "\<And>i. i < length ?cs \<Longrightarrow>
      \<forall>p\<in>set (mapPoints type bp unit ?cs (sectionStartDistLoop (Fin 0) ?cs) (z_nodes_of ?cs)
        (pointsBySection ?all) i). is_finite (distance p)"
    by (rule mapPoints_distance_finite[OF _ all]) (use d in simp)
  then show ?thesis
    by (auto simp: finalPoints_def Let_def)
qed

text \<open>
  Claim C5. For every input, the points returned by \<open>calculateMultiReachProfile\<close> are the
  assembled points sorted by global distance: from the first point to the last, the
  distance never decreases from a point to the next. When the reach lengths are finite
  numbers, every distance is a finite number and the sequence is sorted by \<open>\<le>\<close> (with a
  NaN among the distances no order by \<open>\<le>\<close> exists, as NaN compares with nothing).
\<close>

theorem calculateMultiReachProfile_sorted:
  "successively (\<lambda>a b. \<not> distance b < distance a)
     (calculateMultiReachProfile type baseParams sections bc unit stepPerSection)
   \<and> mset (calculateMultiReachProfile type baseParams sections bc unit stepPerSection) =
       mset (finalPoints type baseParams sections bc unit stepPerSection)
   \<and> ((\<forall>s\<in>set sections. is_finite (sec_length s)) \<longrightarrow>
        sorted_wrt (\<lambda>a b. distance a \<le> distance b)
          (calculateMultiReachProfile type baseParams sections bc unit stepPerSection))"
proof (intro conjI impI)
  show "successively (\<lambda>a b. \<not> distance b < distance a)
     (calculateMultiReachProfile type baseParams sections bc unit stepPerSection)"
    unfolding calculateMultiReachProfile_def by (rule successively_js_sort_distance)
next
  show "mset (calculateMultiReachProfile type baseParams sections bc unit stepPerSection) =
       mset (finalPoints type baseParams sections bc unit stepPerSection)"
    unfolding calculateMultiReachProfile_def by simp
next
  assume "\<forall>s\<in>set sections. is_finite (sec_length s)"
  then have "\<forall>p\<in>set (finalPoints type baseParams sections bc unit stepPerSection).
      is_finite (distance p)"
    by (rule finalPoints_distance_finite)
  then have "\<forall>p\<in>set (finalPoints type baseParams sections bc unit stepPerSection).
      distance p \<noteq> NaN"
    by auto
  then show "sorted_wrt (\<lambda>a b. distance a \<le> distance b)
      (calculateMultiReachProfile type baseParams sections bc unit stepPerSection)"
    unfolding calculateMultiReachProfile_def by (rule sorted_js_sort_distance)
qed

theorem calculateMultiReachProfile_sorted_witness:
  "sorted_wrt (\<lambda>a b. distance a \<le> distance b)
     (calculateMultiReachProfile Rectangular
        \<lparr>flowRate = Fin 10, slope = Fin 0.001, manningN = Fin 0.013, width = Fin 5,
         sideSlope = Fin 0, diameter = Fin 0\<rparr>
        [\<lparr>sec_length = Fin 100, inputMode = SlopeMode, sec_slope = Fin 0.001,
          usElevation = Fin 0, dsElevation = Fin 0\<rparr>,
         \<lparr>sec_length = Fin 200, inputMode = Elevation, sec_slope = Fin 0,
          usElevation = Fin 50, dsElevation = Fin 49\<rparr>]
        \<lparr>location = Downstream, bc_type = NormalDepth, bc_value = Fin 0\<rparr> SI 20)"
  using calculateMultiReachProfile_sorted [of Rectangular
        "\<lparr>flowRate = Fin 10, slope = Fin 0.001, manningN = Fin 0.013, width = Fin 5,
          sideSlope = Fin 0, diameter = Fin 0\<rparr>"
        "[\<lparr>sec_length = Fin 100, inputMode = SlopeMode, sec_slope = Fin 0.001,
           usElevation = Fin 0, dsElevation = Fin 0\<rparr>,
          \<lparr>sec_length = Fin 200, inputMode = Elevation, sec_slope = Fin 0,
           usElevation = Fin 50, dsElevation = Fin 49\<rparr>]"
        "\<lparr>location = Downstream, bc_type = NormalDepth, bc_value = Fin 0\<rparr>" SI 20]
  by simp

section \<open>Bed elevation of the reach boundaries\<close>

lemma length_fillKnowns_fold:
  "length (foldl (\<lambda>z (i, s).
              if inputMode s = Elevation
              then (z[i := Some (usElevation s)])[i + 1 := Some (dsElevation s)]
              else z) z0 xs) = length z0"
  by (induction xs arbitrary: z0) (auto simp: case_prod_beta)

lemma length_fillKnowns [simp]: "length (fillKnowns cs) = length cs + 1"
  by (simp add: fillKnowns_def length_fillKnowns_fold)

lemma forwardPass_fold_known:
  assumes "z0 ! 0 \<noteq> None" "n < length z0"
  shows "length (foldl (\<lambda>z i.
              if z ! (i + 1) = None
              then z[i + 1 := Some (num (z ! i) - sec_slope (cs ! i) * sec_length (cs ! i))]
              else z) z0 [0..<n]) = length z0
     \<and> (\<forall>j\<le>n. foldl (\<lambda>z i.
              if z ! (i + 1) = None
              then z[i + 1 := Some (num (z ! i) - sec_slope (cs ! i) * sec_length (cs ! i))]
              else z) z0 [0..<n] ! j \<noteq> None)"
proof -
  define F where "F = (\<lambda>z i.
              if z ! (i + 1) = None
              then z[i + 1 := Some (num (z ! i) - sec_slope (cs ! i) * sec_length (cs ! i))]
              else z)"
  have len: "\<And>z i. length (F z i) = length z" by (simp add: F_def)
  have keep: "F z i ! j \<noteq> None" if "z ! j \<noteq> None" for z i j
  proof (cases "z ! (i + 1) = None")
    case True
    then have "j \<noteq> i + 1" using that by auto
    then show ?thesis using that True by (simp add: F_def)
  next
    case False
    then have "F z i = z" by (auto simp: F_def)
    then show ?thesis using that by simp
  qed
  have new: "\<And>z i. i + 1 < length z \<Longrightarrow> F z i ! (i + 1) \<noteq> None"
    by (auto simp: F_def)
  have "i < length z0 \<Longrightarrow>
      length (foldl F z0 [0..<i]) = length z0 \<and> (\<forall>j\<le>i. foldl F z0 [0..<i] ! j \<noteq> None)" for i
  proof (induction i)
    case 0
    then show ?case using assms(1) by simp
  next
    case (Suc i)
    let ?z = "foldl F z0 [0..<i]"
    have ih: "length ?z = length z0" "\<forall>j\<le>i. ?z ! j \<noteq> None"
      using Suc by simp_all
    have st: "foldl F z0 [0..<Suc i] = F ?z i" by simp
    have "F ?z i ! (Suc i) \<noteq> None" using new[of i ?z] ih(1) Suc.prems by simp
    moreover have "\<forall>j\<le>i. F ?z i ! j \<noteq> None" using keep ih(2) by blast
    ultimately have "\<forall>j\<le>Suc i. F ?z i ! j \<noteq> None" by (auto simp: le_Suc_eq)
    then show ?case unfolding st using len ih(1) by simp
  qed
  from this[OF assms(2)] show ?thesis unfolding F_def .
qed

lemma forwardPass_known:
  assumes "length z = length cs + 1"
  shows "length (forwardPass cs z) = length z \<and> (\<forall>j\<le>length cs. forwardPass cs z ! j \<noteq> None)"
proof -
  let ?z0 = "if z ! 0 = None then z[0 := Some (Fin 100)] else z"
  have a: "?z0 ! 0 \<noteq> None" using assms by auto
  have b: "length cs < length ?z0" using assms by simp
  show ?thesis
    using forwardPass_fold_known[OF a b, of cs] by (simp add: forwardPass_def)
qed

lemma backwardPass_fold_id:
  "\<forall>i\<in>set xs. z ! i \<noteq> None \<Longrightarrow>
   foldl (\<lambda>z i.
            if z ! i = None \<and> z ! (i + 1) \<noteq> None
            then z[i := Some (num (z ! (i + 1)) + sec_slope (cs ! i) * sec_length (cs ! i))]
            else z) z xs = z"
  by (induction xs) auto

lemma backwardPass_after_forwardPass:
  assumes "length z = length cs + 1"
  shows "backwardPass cs (forwardPass cs z) = forwardPass cs z"
  unfolding backwardPass_def
  by (rule backwardPass_fold_id) (use forwardPass_known[OF assms] in auto)

lemma z_nodes_of_forward: "z_nodes_of cs = forwardPass cs (fillKnowns cs)"
  by (simp add: z_nodes_of_def backwardPass_after_forwardPass)

text \<open>
  Claim C1. In the reconciliation pass of \<open>calculateMultiReachProfile\<close>, when at least one
  reach is Elevation-specified, every leading boundary node that is still unknown is to be
  filled backwards from the first known node by \<open>z[i] = z[i+1] + slope * length\<close>, and the
  arbitrary datum is to be used only when no reach is Elevation-specified. The source does
  not do so: it sets node \<open>0\<close> to the datum \<open>100\<close> before the forward pass whenever
  the first reach is not Elevation-specified, the forward pass then fills every node, and
  the backward pass changes nothing. For a reach in Slope mode (slope \<open>0.001\<close>, length
  \<open>100\<close>) followed by a reach in Elevation mode (from \<open>50\<close> down to \<open>49\<close>) the
  nodes are \<open>100, 50, 49\<close>; filling backwards from node \<open>1\<close> gives \<open>50.1\<close> at node
  \<open>0\<close>.
\<close>

theorem z_nodes_backward_pass_idle:
  "z_nodes_of computedSections = forwardPass computedSections (fillKnowns computedSections)
   \<and> z_nodes_of (map computeSection
        [\<lparr>sec_length = Fin 100, inputMode = SlopeMode, sec_slope = Fin 0.001,
          usElevation = Fin 0, dsElevation = Fin 0\<rparr>,
         \<lparr>sec_length = Fin 100, inputMode = Elevation, sec_slope = Fin 0,
          usElevation = Fin 50, dsElevation = Fin 49\<rparr>])
       = [Some (Fin 100), Some (Fin 50), Some (Fin 49)]"
proof
  show "z_nodes_of computedSections = forwardPass computedSections (fillKnowns computedSections)"
    by (rule z_nodes_of_forward)
next
  let ?s1 = "\<lparr>sec_length = Fin 100, inputMode = SlopeMode, sec_slope = Fin 0.001,
          usElevation = Fin 0, dsElevation = Fin 0\<rparr>"
  let ?s2 = "\<lparr>sec_length = Fin 100, inputMode = Elevation, sec_slope = Fin 0.01,
          usElevation = Fin 50, dsElevation = Fin 49\<rparr>"
  have upt2: "[0..<2] = [0, Suc 0]" by (simp add: upt_rec)
  have c: "map computeSection
        [\<lparr>sec_length = Fin 100, inputMode = SlopeMode, sec_slope = Fin 0.001,
          usElevation = Fin 0, dsElevation = Fin 0\<rparr>,
         \<lparr>sec_length = Fin 100, inputMode = Elevation, sec_slope = Fin 0,
          usElevation = Fin 50, dsElevation = Fin 49\<rparr>] = [?s1, ?s2]"
    by (simp add: computeSection_def)
  have z1: "fillKnowns [?s1, ?s2] = [None, Some (Fin 50), Some (Fin 49)]"
    by (simp add: fillKnowns_def enumerate_eq_zip upt2 numeral_2_eq_2)
  show "z_nodes_of (map computeSection
        [\<lparr>sec_length = Fin 100, inputMode = SlopeMode, sec_slope = Fin 0.001,
          usElevation = Fin 0, dsElevation = Fin 0\<rparr>,
         \<lparr>sec_length = Fin 100, inputMode = Elevation, sec_slope = Fin 0,
          usElevation = Fin 50, dsElevation = Fin 49\<rparr>])
       = [Some (Fin 100), Some (Fin 50), Some (Fin 49)]"
    unfolding c z_nodes_of_def z1
    by (simp add: forwardPass_def backwardPass_def upt2)
qed

section \<open>Choke at a junction\<close>











section \<open>Depth bounds in the standard-step integration\<close>









declare stepLoop.simps(2) [simp del]








section \<open>Normal depth and roughness\<close>


lemma getGeometry_manningN [simp]:
  "getGeometry type y (p\<lparr>manningN := n\<rparr>) = getGeometry type y p"
  by (cases type) (simp_all add: getGeometry_def)

lemma normalDepthLoop_manningN [simp]:
  "normalDepthLoop k type (p\<lparr>manningN := n\<rparr>) t a b = normalDepthLoop k type p t a b"
  by (induction k arbitrary: a b) (simp_all add: Let_def)













section \<open>Normal depth and Manning's equation\<close>











end
